theory Spec2Isabelle
  imports Complex_Main
begin

section \<open>Untyped JavaScript values\<close>

text \<open>
  Tool arguments and tool results reach the pipeline with the TypeScript type
  \<^verbatim>\<open>unknown\<close>. They are modelled as the values JSON can carry plus
  \<^verbatim>\<open>undefined\<close>. A number is a finite value or one of the three non-finite
  doubles; the finite ones are embedded in the rationals, which contain every double.
  An object is the list of its own properties, looked up by name; a missing property
  reads as \<^verbatim>\<open>undefined\<close>.
\<close>

datatype jsnum = Finite rat | NaN | PosInfinity | NegInfinity

datatype jsval =
    JUndefined
  | JNull
  | JBool bool
  | JNum jsnum
  | JStr string
  | JArr "jsval list"
  | JObj "(string \<times> jsval) list"

type_synonym jsrecord = "(string \<times> jsval) list"

text \<open>The operator \<^verbatim>\<open>!value\<close> is true exactly on the falsy values.\<close>

fun truthy :: "jsval \<Rightarrow> bool" where
  "truthy JUndefined = False"
| "truthy JNull = False"
| "truthy (JBool b) = b"
| "truthy (JNum (Finite q)) = (q \<noteq> 0)"
| "truthy (JNum NaN) = False"
| "truthy (JNum _) = True"
| "truthy (JStr s) = (s \<noteq> [])"
| "truthy (JArr _) = True"
| "truthy (JObj _) = True"

fun typeof :: "jsval \<Rightarrow> string" where
  "typeof JUndefined = ''undefined''"
| "typeof JNull = ''object''"
| "typeof (JBool _) = ''boolean''"
| "typeof (JNum _) = ''number''"
| "typeof (JStr _) = ''string''"
| "typeof (JArr _) = ''object''"
| "typeof (JObj _) = ''object''"

fun isArray :: "jsval \<Rightarrow> bool" where
  "isArray (JArr _) = True"
| "isArray _ = False"

text \<open>
  Property access \<^verbatim>\<open>record.name\<close> on the plain object of some arguments or of
  a result. The names the parsers read (\<^verbatim>\<open>command\<close>, \<^verbatim>\<open>action\<close>,
  \<^verbatim>\<open>coordinate\<close>, \<^verbatim>\<open>text\<close>, \<^verbatim>\<open>duration\<close>,
  \<^verbatim>\<open>scroll_amount\<close>, \<^verbatim>\<open>scroll_direction\<close>, \<^verbatim>\<open>type\<close>,
  \<^verbatim>\<open>data\<close>) are not names of inherited members, so a property the object
  does not have reads as \<^verbatim>\<open>undefined\<close>.
\<close>

definition getProp :: "jsrecord \<Rightarrow> string \<Rightarrow> jsval" where
  "getProp r name = (case map_of r name of Some v \<Rightarrow> v | None \<Rightarrow> JUndefined)"

section \<open>The data model of \<^verbatim>\<open>agent-events.ts\<close>\<close>

datatype ToolName = TN_computer | TN_bash | TN_unknown

datatype ToolEventStatus = Running | Success | Error | Aborted

text \<open>
  \<^verbatim>\<open>ComputerPayload.action\<close> is declared as the ten-valued union
  \<^verbatim>\<open>ComputerAction\<close>, but the only place that builds it casts an arbitrary
  string to that type, so at run time the field holds a string. The same holds for
  \<^verbatim>\<open>scroll_direction\<close>.
\<close>

definition ComputerAction :: "string list" where
  "ComputerAction =
     [''screenshot'', ''left_click'', ''right_click'', ''double_click'', ''mouse_move'',
      ''type'', ''key'', ''wait'', ''scroll'', ''unknown'']"

record ComputerPayload =
  action :: string
  coordinate :: "(jsnum \<times> jsnum) option"
  payload_text :: "string option"
  duration :: "jsnum option"
  scroll_amount :: "jsnum option"
  scroll_direction :: "string option"

datatype ToolPayload =
    Computer ComputerPayload
  | Bash (command: string)
  | Unknown (raw: jsrecord)

datatype ToolResult =
    TextResult string
  | ImageResult string
  | AbortedResult string
  | UnknownResult jsval

record ToolEvent =
  event_id :: string
  toolName :: ToolName
  timestamp :: int
  status :: ToolEventStatus
  durationMs :: "jsnum option"
  payload :: ToolPayload
  result :: "ToolResult option"

subsection \<open>Plain objects used as dictionaries\<close>

text \<open>
  \<^verbatim>\<open>byId\<close> and the scanner's start-time table are plain objects indexed by
  tool-call id. Reading \<^verbatim>\<open>obj[k]\<close> on a plain object finds the object's own
  property \<^verbatim>\<open>k\<close> if it has one, and otherwise the member of that name that
  every plain object inherits from \<^verbatim>\<open>Object.prototype\<close>, if there is one;
  only otherwise is it \<^verbatim>\<open>undefined\<close>. The inherited members are those of the
  language standard; each of them is an object (a function, or the prototype itself
  for \<^verbatim>\<open>__proto__\<close>), hence truthy and not nullish, with no enumerable
  property of its own and no property named \<^verbatim>\<open>result\<close>.
\<close>

definition objectPrototypeMembers :: "string list" where
  "objectPrototypeMembers =
     [''constructor'', ''__defineGetter__'', ''__defineSetter__'', ''hasOwnProperty'',
      ''__lookupGetter__'', ''__lookupSetter__'', ''isPrototypeOf'',
      ''propertyIsEnumerable'', ''toString'', ''valueOf'', ''__proto__'',
      ''toLocaleString'']"

datatype 'a member = Own 'a | Inherited | NoMember

definition readMember :: "(string \<rightharpoonup> 'a) \<Rightarrow> string \<Rightarrow> 'a member" where
  "readMember obj k =
     (case obj k of
        Some v \<Rightarrow> Own v
      | None \<Rightarrow> if k \<in> set objectPrototypeMembers then Inherited else NoMember)"

text \<open>
  The assignment \<^verbatim>\<open>obj[k] = v\<close> of a number creates or overwrites the own
  property \<^verbatim>\<open>k\<close>, except for \<^verbatim>\<open>__proto__\<close>, where it runs the inherited
  setter, which ignores a value that is not an object. (An object literal with a
  computed key, \<^verbatim>\<open>{...obj, [k]: v}\<close>, defines the own property for every
  \<^verbatim>\<open>k\<close>.)
\<close>

definition assignNumber :: "(string \<rightharpoonup> int) \<Rightarrow> string \<Rightarrow> int \<Rightarrow> (string \<rightharpoonup> int)" where
  "assignNumber obj k v = (if k = ''__proto__'' then obj else obj(k \<mapsto> v))"

subsection \<open>The store\<close>

text \<open>
  An own property of \<^verbatim>\<open>byId\<close> holds a \<^verbatim>\<open>ToolEvent\<close>, or the object
  \<^verbatim>\<open>{...existing, status, durationMs, result}\<close> that the register-result branch
  builds when \<^verbatim>\<open>existing\<close> is an inherited member: an object with these three
  properties only.
\<close>

datatype StoredEvent =
    Event ToolEvent
  | Fragment ToolEventStatus jsnum "ToolResult option"

fun storedStatus :: "StoredEvent \<Rightarrow> ToolEventStatus" where
  "storedStatus (Event e) = status e"
| "storedStatus (Fragment st _ _) = st"

fun storedResult :: "StoredEvent \<Rightarrow> ToolResult option" where
  "storedResult (Event e) = result e"
| "storedResult (Fragment _ _ r) = r"

record EventState =
  byId :: "string \<rightharpoonup> StoredEvent"
  order :: "string list"

datatype EventAction =
    RegisterCall ToolEvent
  | RegisterResult string ToolEventStatus jsnum "ToolResult option"
  | Reset

definition initialEventState :: EventState where
  "initialEventState = \<lparr>byId = Map.empty, order = []\<rparr>"

section \<open>The reducer\<close>

text \<open>
  The register-result branch reads \<^verbatim>\<open>Date.now()\<close> for the timestamp of a
  synthesized event, and nowhere else; the reading is the first argument, and
  \<open>readsClock\<close> tells whether it is taken.
\<close>

definition eventReducer :: "int \<Rightarrow> EventState \<Rightarrow> EventAction \<Rightarrow> EventState" where
  "eventReducer now state act =
     (case act of
        RegisterCall event \<Rightarrow>
          (case readMember (byId state) (event_id event) of
             NoMember \<Rightarrow>
               \<lparr>byId = (byId state)(event_id event \<mapsto> Event event),
                order = order state @ [event_id event]\<rparr>
           | _ \<Rightarrow> state)
      | RegisterResult i st d r \<Rightarrow>
          (case readMember (byId state) i of
             NoMember \<Rightarrow>
               \<lparr>byId = (byId state)(i \<mapsto> Event
                   \<lparr>event_id = i, toolName = TN_unknown, timestamp = now, status = st,
                    durationMs = Some d, payload = Unknown [], result = r\<rparr>),
                order = order state @ [i]\<rparr>
           | Own (Event existing) \<Rightarrow>
               state\<lparr>byId := (byId state)(i \<mapsto> Event
                   (existing\<lparr>status := st, durationMs := Some d,
                      result := (case r of Some x \<Rightarrow> Some x | None \<Rightarrow> result existing)\<rparr>))\<rparr>
           | Own (Fragment _ _ r0) \<Rightarrow>
               state\<lparr>byId := (byId state)(i \<mapsto>
                   Fragment st d (case r of Some x \<Rightarrow> Some x | None \<Rightarrow> r0))\<rparr>
           | Inherited \<Rightarrow>
               state\<lparr>byId := (byId state)(i \<mapsto> Fragment st d r)\<rparr>)
      | Reset \<Rightarrow> initialEventState)"

definition readsClock :: "EventState \<Rightarrow> EventAction \<Rightarrow> bool" where
  "readsClock state act =
     (case act of
        RegisterResult i _ _ _ \<Rightarrow> readMember (byId state) i = NoMember
      | _ \<Rightarrow> False)"

text \<open>
  \<^verbatim>\<open>useReducer\<close> applies the reducer to the dispatched actions in order, each
  with its own clock reading.
\<close>

definition dispatchAll :: "EventState \<Rightarrow> (int \<times> EventAction) list \<Rightarrow> EventState" where
  "dispatchAll state acts = foldl (\<lambda>s (now, a). eventReducer now s a) state acts"

section \<open>The payload normalizer\<close>

fun asString :: "jsval \<Rightarrow> string option" where
  "asString (JStr s) = Some s"
| "asString _ = None"

fun isFinite :: "jsnum \<Rightarrow> bool" where
  "isFinite (Finite _) = True"
| "isFinite _ = False"

fun asNumber :: "jsval \<Rightarrow> jsnum option" where
  "asNumber (JNum n) = (if isFinite n then Some n else None)"
| "asNumber _ = None"

definition asCoordinate :: "jsval \<Rightarrow> (jsnum \<times> jsnum) option" where
  "asCoordinate v =
     (case v of
        JArr vs \<Rightarrow>
          (if length vs \<noteq> 2 then None
           else (case (vs ! 0, vs ! 1) of
                   (JNum x, JNum y) \<Rightarrow> Some (x, y)
                 | _ \<Rightarrow> None))
      | _ \<Rightarrow> None)"

definition asRecord :: "jsval \<Rightarrow> jsrecord option" where
  "asRecord v =
     (if \<not> truthy v \<or> typeof v \<noteq> ''object'' then None
      else if isArray v then None
      else (case v of JObj props \<Rightarrow> Some props | _ \<Rightarrow> None))"

text \<open>
  \<^verbatim>\<open>x ?? d\<close> yields \<^verbatim>\<open>d\<close> only when \<^verbatim>\<open>x\<close> is undefined or null;
  on an optional value this is \<open>case_option d id\<close>, written out below.
\<close>

definition parseToolPayload :: "string \<Rightarrow> jsval \<Rightarrow> ToolPayload" where
  "parseToolPayload tool args =
     (if tool = ''bash'' then
        (let command =
               (case asRecord args of
                  Some r \<Rightarrow> asString (getProp r ''command'')
                | None \<Rightarrow> None)
         in Bash (case command of Some c \<Rightarrow> c | None \<Rightarrow> []))
      else if tool = ''computer'' then
        (let r = (case asRecord args of Some r \<Rightarrow> r | None \<Rightarrow> []);
             a = asString (getProp r ''action'')
         in Computer
              \<lparr>action = (case a of Some x \<Rightarrow> x | None \<Rightarrow> ''unknown''),
               coordinate = asCoordinate (getProp r ''coordinate''),
               payload_text = asString (getProp r ''text''),
               duration = asNumber (getProp r ''duration''),
               scroll_amount = asNumber (getProp r ''scroll_amount''),
               scroll_direction = asString (getProp r ''scroll_direction'')\<rparr>)
      else Unknown (case asRecord args of Some r \<Rightarrow> r | None \<Rightarrow> []))"

section \<open>The result classifier\<close>

text \<open>
  The abort sentinel \<^verbatim>\<open>ABORTED\<close> is imported from \<^verbatim>\<open>@/lib/utils\<close>; it is a
  string constant, and the classifier is stated for an arbitrary one, its first argument.
\<close>

definition parseToolResult :: "string \<Rightarrow> jsval \<Rightarrow> ToolResult option" where
  "parseToolResult ABORTED res =
     (if res = JUndefined \<or> res = JNull then None
      else (case res of
        JStr s \<Rightarrow>
          (if s = ABORTED then Some (AbortedResult s) else Some (TextResult s))
      | _ \<Rightarrow>
          (case asRecord res of
             None \<Rightarrow> Some (UnknownResult res)
           | Some r \<Rightarrow>
               (case (getProp r ''type'' = JStr ''image'', asString (getProp r ''data'')) of
                  (True, Some d) \<Rightarrow> Some (ImageResult d)
                | _ \<Rightarrow>
                    (case (getProp r ''type'' = JStr ''text'', asString (getProp r ''text'')) of
                       (True, Some t) \<Rightarrow>
                         (if t = ABORTED then Some (AbortedResult t) else Some (TextResult t))
                     | _ \<Rightarrow> Some (UnknownResult res))))))"

fun deriveStatusFromResult :: "ToolResult option \<Rightarrow> ToolEventStatus" where
  "deriveStatusFromResult None = Success"
| "deriveStatusFromResult (Some (AbortedResult _)) = Aborted"
| "deriveStatusFromResult (Some _) = Success"

section \<open>The chat page: messages, the stop handler and the ingestion scanner\<close>

datatype InvocationState = Call | Result

record ToolInvocation =
  toolCallId :: string
  inv_toolName :: string
  inv_state :: InvocationState
  args :: jsval
  inv_result :: jsval

text \<open>
  A message part is a tool invocation or a part of any other type (text, step start,
  ...), of which only the fact that it is not a tool invocation matters here.
\<close>

datatype MessagePart = ToolInvocationPart ToolInvocation | OtherPart string

record Message =
  role :: string
  content :: string
  parts :: "MessagePart list option"

datatype js_error = TypeError

definition normalizeToolName :: "string \<Rightarrow> ToolName" where
  "normalizeToolName tool =
     (if tool = ''computer'' then TN_computer
      else if tool = ''bash'' then TN_bash
      else TN_unknown)"

text \<open>
  \<^verbatim>\<open>stop\<close> first stops the generation (a transport effect, outside the model) and
  then rewrites the message list: its result is the new list, or the
  \<^verbatim>\<open>TypeError\<close> raised by \<^verbatim>\<open>lastMessage?.parts.at(-1)\<close> on a last message
  without parts. The handler's \<^verbatim>\<open>messages\<close> and the \<^verbatim>\<open>prev\<close> of its update are
  the same list.
\<close>

definition stop :: "string \<Rightarrow> Message list \<Rightarrow> js_error + Message list" where
  "stop ABORTED messages =
     (if messages = [] then Inr messages
      else
        (let lastMessage = last messages in
         case parts lastMessage of
           None \<Rightarrow> Inl TypeError
         | Some ps \<Rightarrow>
             (if ps = [] then Inr messages
              else (case last ps of
                ToolInvocationPart ti \<Rightarrow>
                  (if role lastMessage = ''assistant'' then
                     Inr (butlast messages @
                       [lastMessage\<lparr>parts := Some (butlast ps @
                          [ToolInvocationPart
                             (ti\<lparr>inv_state := Result, inv_result := JStr ABORTED\<rparr>)])\<rparr>])
                   else Inr messages)
              | OtherPart _ \<Rightarrow> Inr messages))))"

text \<open>
  The scanner's memory: the two sets of ids already seen, the start times, and the
  store it dispatches into. Each \<^verbatim>\<open>Date.now()\<close> is a reading of \<open>clock\<close>, a
  sequence of times of which \<open>ticks\<close> readings have been taken. A dispatched action
  is applied to the store at once, and the reducer's reading, where it takes one, is
  the next of the sequence.
\<close>

record ScannerState =
  seenCalls :: "string set"
  seenResults :: "string set"
  callStart :: "string \<rightharpoonup> int"
  eventState :: EventState
  ticks :: nat

definition initialScannerState :: ScannerState where
  "initialScannerState =
     \<lparr>seenCalls = {}, seenResults = {}, callStart = Map.empty,
      eventState = initialEventState, ticks = 0\<rparr>"

definition dispatchEvent :: "(nat \<Rightarrow> int) \<Rightarrow> ScannerState \<Rightarrow> EventAction \<Rightarrow> ScannerState" where
  "dispatchEvent clock st act =
     st\<lparr>eventState := eventReducer (clock (ticks st)) (eventState st) act,
        ticks := (if readsClock (eventState st) act then ticks st + 1 else ticks st)\<rparr>"

text \<open>The body of the first \<^verbatim>\<open>if\<close> of the scanner: a call seen for the first time.\<close>

definition onCall :: "(nat \<Rightarrow> int) \<Rightarrow> ScannerState \<Rightarrow> ToolInvocation \<Rightarrow> ScannerState" where
  "onCall clock st ti =
     (let t = clock (ticks st);
          st1 = st\<lparr>seenCalls := insert (toolCallId ti) (seenCalls st),
                   callStart := assignNumber (callStart st) (toolCallId ti) t,
                   ticks := ticks st + 1\<rparr>
      in dispatchEvent clock st1
           (RegisterCall
              \<lparr>event_id = toolCallId ti,
               toolName = normalizeToolName (inv_toolName ti),
               timestamp = t,
               status = Running,
               durationMs = None,
               payload = parseToolPayload (inv_toolName ti) (args ti),
               result = None\<rparr>))"

text \<open>
  The body of the second \<^verbatim>\<open>if\<close>: a result seen for the first time.
  \<^verbatim>\<open>callStartRef.current[toolCallId] ?? Date.now()\<close> reads the clock only when
  the table has no member of that name. When the member is an inherited one,
  \<^verbatim>\<open>startedAt\<close> is not a number, the difference is \<^verbatim>\<open>NaN\<close>, and so is
  \<^verbatim>\<open>Math.max(0, NaN)\<close>.
\<close>

definition onResult ::
  "string \<Rightarrow> (nat \<Rightarrow> int) \<Rightarrow> ScannerState \<Rightarrow> ToolInvocation \<Rightarrow> ScannerState" where
  "onResult ABORTED clock st ti =
     (let st1 = st\<lparr>seenResults := insert (toolCallId ti) (seenResults st)\<rparr>;
          known = readMember (callStart st1) (toolCallId ti);
          st2 = (case known of
                   NoMember \<Rightarrow> st1\<lparr>ticks := ticks st1 + 1\<rparr>
                 | _ \<Rightarrow> st1);
          parsedResult = parseToolResult ABORTED (inv_result ti);
          derived = deriveStatusFromResult parsedResult;
          finished = clock (ticks st2);
          st3 = st2\<lparr>ticks := ticks st2 + 1\<rparr>;
          elapsed =
            (case known of
               Own startedAt \<Rightarrow> Finite (of_int (max 0 (finished - startedAt)))
             | NoMember \<Rightarrow> Finite (of_int (max 0 (finished - clock (ticks st1))))
             | Inherited \<Rightarrow> NaN)
      in dispatchEvent clock st3
           (RegisterResult (toolCallId ti) derived elapsed parsedResult))"

definition handlePart ::
  "string \<Rightarrow> (nat \<Rightarrow> int) \<Rightarrow> ScannerState \<Rightarrow> MessagePart \<Rightarrow> ScannerState" where
  "handlePart ABORTED clock st part =
     (case part of
        OtherPart _ \<Rightarrow> st
      | ToolInvocationPart ti \<Rightarrow>
          (if toolCallId ti = [] then st
           else
             (let st1 =
                    (if inv_state ti = Call \<and> toolCallId ti \<notin> seenCalls st
                     then onCall clock st ti else st)
              in if inv_state ti = Result \<and> toolCallId ti \<notin> seenResults st1
                 then onResult ABORTED clock st1 ti else st1)))"

definition scanMessage ::
  "string \<Rightarrow> (nat \<Rightarrow> int) \<Rightarrow> ScannerState \<Rightarrow> Message \<Rightarrow> ScannerState" where
  "scanMessage ABORTED clock st message =
     (case parts message of
        None \<Rightarrow> st
      | Some ps \<Rightarrow> foldl (handlePart ABORTED clock) st ps)"

definition scanMessages ::
  "string \<Rightarrow> (nat \<Rightarrow> int) \<Rightarrow> bool \<Rightarrow> ScannerState \<Rightarrow> Message list \<Rightarrow> ScannerState" where
  "scanMessages ABORTED clock hasHydrated st messages =
     (if \<not> hasHydrated then st
      else foldl (scanMessage ABORTED clock) st messages)"

text \<open>
  Two notions used to reason about a rescan of the history: the parts of a message
  list in the order the scanner visits them, and the parts the scanner ignores because
  its memory already holds their id for their state tag.
\<close>

definition partsOf :: "Message \<Rightarrow> MessagePart list" where
  "partsOf message = (case parts message of None \<Rightarrow> [] | Some ps \<Rightarrow> ps)"

definition allParts :: "Message list \<Rightarrow> MessagePart list" where
  "allParts messages = concat (map partsOf messages)"

definition alreadySeen :: "ScannerState \<Rightarrow> MessagePart \<Rightarrow> bool" where
  "alreadySeen st part =
     (case part of
        OtherPart _ \<Rightarrow> True
      | ToolInvocationPart ti \<Rightarrow>
          (if toolCallId ti = [] then True
           else (case inv_state ti of
                   Call \<Rightarrow> toolCallId ti \<in> seenCalls st
                 | Result \<Rightarrow> toolCallId ti \<in> seenResults st)))"

section \<open>Properties of the event store\<close>

subsection \<open>Reading the store\<close>

lemma readMember_own [simp]: "obj k = Some v \<Longrightarrow> readMember obj k = Own v"
  by (simp add: readMember_def)

lemma readMember_inherited [simp]:
  "obj k = None \<Longrightarrow> k \<in> set objectPrototypeMembers \<Longrightarrow> readMember obj k = Inherited"
  by (simp add: readMember_def)

lemma readMember_none [simp]:
  "obj k = None \<Longrightarrow> k \<notin> set objectPrototypeMembers \<Longrightarrow> readMember obj k = NoMember"
  by (simp add: readMember_def)

lemma readMember_cases:
  obtains (own) v where "obj k = Some v" "readMember obj k = Own v"
  | (inherited) "obj k = None" "k \<in> set objectPrototypeMembers" "readMember obj k = Inherited"
  | (none) "obj k = None" "k \<notin> set objectPrototypeMembers" "readMember obj k = NoMember"
  by (cases "obj k") (auto simp: readMember_def)

subsection \<open>The order invariant\<close>

text \<open>
  What holds of \<open>order\<close> in every state the reducer reaches: it has no duplicates,
  and its ids are the keys of \<open>byId\<close> that are not names of inherited members.
\<close>

lemma reducer_keeps_invariant:
  assumes "distinct (order s)"
    and "set (order s) = dom (byId s) - set objectPrototypeMembers"
  shows "distinct (order (eventReducer now s a)) \<and>
         set (order (eventReducer now s a)) =
           dom (byId (eventReducer now s a)) - set objectPrototypeMembers"
proof (cases a)
  case (RegisterCall e)
  show ?thesis
  proof (cases "byId s" "event_id e" rule: readMember_cases)
    case (own v)
    with assms RegisterCall show ?thesis by (simp add: eventReducer_def)
  next
    case inherited
    with assms RegisterCall show ?thesis by (simp add: eventReducer_def)
  next
    case none
    then have "event_id e \<notin> set (order s)" using assms(2) by auto
    with none assms RegisterCall show ?thesis
      by (auto simp: eventReducer_def)
  qed
next
  case (RegisterResult i st d r)
  show ?thesis
  proof (cases "byId s" i rule: readMember_cases)
    case (own v)
    with assms RegisterResult show ?thesis
      by (cases v) (auto simp: eventReducer_def)
  next
    case inherited
    with assms RegisterResult show ?thesis
      by (auto simp: eventReducer_def)
  next
    case none
    then have "i \<notin> set (order s)" using assms(2) by auto
    with none assms RegisterResult show ?thesis
      by (auto simp: eventReducer_def)
  qed
next
  case Reset
  then show ?thesis by (simp add: eventReducer_def initialEventState_def)
qed

lemma dispatchAll_invariant:
  "distinct (order s) \<Longrightarrow> set (order s) = dom (byId s) - set objectPrototypeMembers \<Longrightarrow>
   distinct (order (dispatchAll s acts)) \<and>
   set (order (dispatchAll s acts)) =
     dom (byId (dispatchAll s acts)) - set objectPrototypeMembers"
proof (induction acts arbitrary: s)
  case Nil
  then show ?case by (simp add: dispatchAll_def)
next
  case (Cons p acts)
  obtain now a where p: "p = (now, a)" by (cases p)
  have step: "dispatchAll s (p # acts) = dispatchAll (eventReducer now s a) acts"
    by (simp add: dispatchAll_def p)
  from reducer_keeps_invariant [OF Cons.prems, of now a] Cons.IH [of "eventReducer now s a"]
  show ?case unfolding step by blast
qed

lemma register_result_present_order:
  "byId s i = Some x \<Longrightarrow> order (eventReducer now s (RegisterResult i st d r)) = order s"
  by (cases x) (simp_all add: eventReducer_def)

lemma reachable_order:
  "distinct (order (dispatchAll initialEventState acts)) \<and>
   set (order (dispatchAll initialEventState acts)) \<subseteq>
     dom (byId (dispatchAll initialEventState acts)) \<and>
   dom (byId (dispatchAll initialEventState acts)) - set objectPrototypeMembers \<subseteq>
     set (order (dispatchAll initialEventState acts))"
proof -
  have "distinct (order initialEventState)"
    "set (order initialEventState) = dom (byId initialEventState) - set objectPrototypeMembers"
    by (simp_all add: initialEventState_def)
  from dispatchAll_invariant [OF this, of acts] show ?thesis by blast
qed

lemma reachable_result_keeps_order:
  assumes "i \<in> set (order (dispatchAll initialEventState acts))"
  shows "order (eventReducer now (dispatchAll initialEventState acts)
           (RegisterResult i st d r)) = order (dispatchAll initialEventState acts)"
proof -
  from assms reachable_order [of acts]
  obtain x where "byId (dispatchAll initialEventState acts) i = Some x" by blast
  then show ?thesis by (rule register_result_present_order)
qed

text \<open>
  Claim C1 says that in every state reached from \<open>initialEventState\<close> the sequence
  \<open>order\<close> holds each id exactly once, with every id of \<open>order\<close> a key of
  \<open>byId\<close>. The reducer tests presence by \<^verbatim>\<open>state.byId[id]\<close>, which for an id
  naming an inherited member finds that member: the register-call of
  \<open>constructor\<close> is dropped, and the register-result of \<open>toString\<close> stores an entry
  under that key without appending the id. The store then has the key \<open>toString\<close>
  and \<open>order\<close> is empty, holding neither of the two ids.
\<close>

theorem inherited_ids_missing_from_order:
  "order (dispatchAll initialEventState
      [(10, RegisterCall \<lparr>event_id = ''constructor'', toolName = TN_bash, timestamp = 10,
        status = Running, durationMs = None, payload = Bash ''ls'', result = None\<rparr>),
       (12, RegisterResult ''toString'' Success (Finite 0) None)]) = [] \<and>
   byId (dispatchAll initialEventState
      [(10, RegisterCall \<lparr>event_id = ''constructor'', toolName = TN_bash, timestamp = 10,
        status = Running, durationMs = None, payload = Bash ''ls'', result = None\<rparr>),
       (12, RegisterResult ''toString'' Success (Finite 0) None)]) ''toString'' =
     Some (Fragment Success (Finite 0) None) \<and>
   byId (dispatchAll initialEventState
      [(10, RegisterCall \<lparr>event_id = ''constructor'', toolName = TN_bash, timestamp = 10,
        status = Running, durationMs = None, payload = Bash ''ls'', result = None\<rparr>),
       (12, RegisterResult ''toString'' Success (Finite 0) None)]) ''constructor'' = None"
  by (simp add: dispatchAll_def eventReducer_def initialEventState_def readMember_def
      objectPrototypeMembers_def)

subsection \<open>Registering a call\<close>

lemma register_call_fresh:
  "byId s (event_id e) = None \<Longrightarrow> event_id e \<notin> set objectPrototypeMembers \<Longrightarrow>
     eventReducer now s (RegisterCall e) =
       \<lparr>byId = (byId s)(event_id e \<mapsto> Event e), order = order s @ [event_id e]\<rparr>"
  by (simp add: eventReducer_def)

text \<open>
  Claim C6, as the reducer has it. For an event whose id is not yet in \<open>byId\<close> and
  is not the name of an inherited member, register-call appends the id to \<open>order\<close>
  and stores the event under its id exactly as it was given. The stored status is the
  one the event carries: it is \<open>Running\<close> when the event was built with that status,
  as the scanner builds it.
\<close>

theorem register_call_stores_event:
  "byId s (event_id e) = None \<Longrightarrow> event_id e \<notin> set objectPrototypeMembers \<Longrightarrow>
     order (eventReducer now s (RegisterCall e)) = order s @ [event_id e] \<and>
     byId (eventReducer now s (RegisterCall e)) (event_id e) = Some (Event e) \<and>
     (status e = Running \<longrightarrow>
        map_option storedStatus (byId (eventReducer now s (RegisterCall e)) (event_id e)) =
          Some Running)"
  by (simp add: register_call_fresh)

theorem register_call_stores_event_witness:
  "byId initialEventState ''t1'' = None \<and>
   ''t1'' \<notin> set objectPrototypeMembers \<and>
   order (eventReducer 10 initialEventState (RegisterCall \<lparr>event_id = ''t1'', toolName = TN_bash, timestamp = 10,
        status = Running, durationMs = None, payload = Bash ''ls'', result = None\<rparr>)) = [''t1''] \<and>
   map_option storedStatus
     (byId (eventReducer 10 initialEventState (RegisterCall \<lparr>event_id = ''t1'', toolName = TN_bash, timestamp = 10,
        status = Running, durationMs = None, payload = Bash ''ls'', result = None\<rparr>)) ''t1'') = Some Running"
  using register_call_stores_event [of initialEventState
      "\<lparr>event_id = ''t1'', toolName = TN_bash, timestamp = 10,
        status = Running, durationMs = None, payload = Bash ''ls'', result = None\<rparr>" 10]
  by (simp add: initialEventState_def objectPrototypeMembers_def)

text \<open>
  The reducer does not set the status. Registered with status \<open>Success\<close>, an event
  with a fresh id is stored with status \<open>Success\<close>, not \<open>Running\<close>. And an event
  whose id is \<open>constructor\<close>, absent from the empty store, is not stored at all.
\<close>

theorem register_call_status_counterexample:
  "byId initialEventState ''t1'' = None \<and>
   map_option storedStatus
     (byId (eventReducer 10 initialEventState (RegisterCall \<lparr>event_id = ''t1'', toolName = TN_bash, timestamp = 10,
        status = Success, durationMs = None, payload = Bash ''ls'', result = None\<rparr>)) ''t1'') = Some Success \<and>
   map_option storedStatus
     (byId (eventReducer 10 initialEventState (RegisterCall \<lparr>event_id = ''t1'', toolName = TN_bash, timestamp = 10,
        status = Success, durationMs = None, payload = Bash ''ls'', result = None\<rparr>)) ''t1'') \<noteq> Some Running \<and>
   byId initialEventState ''constructor'' = None \<and>
   eventReducer 10 initialEventState (RegisterCall \<lparr>event_id = ''constructor'', toolName = TN_bash, timestamp = 10,
        status = Running, durationMs = None, payload = Bash ''ls'', result = None\<rparr>) = initialEventState"
  by (simp add: eventReducer_def initialEventState_def readMember_def
      objectPrototypeMembers_def)

text \<open>
  Claim C7. Two register-call actions whose events have the same id, dispatched one
  after the other, give the state the first alone gives; and a register-call for an
  id already in \<open>byId\<close> returns the state unchanged.
\<close>

theorem register_call_idempotent:
  "(event_id e2 = event_id e1 \<longrightarrow>
      eventReducer n2 (eventReducer n1 s (RegisterCall e1)) (RegisterCall e2) =
        eventReducer n1 s (RegisterCall e1)) \<and>
   (byId s (event_id e1) \<noteq> None \<longrightarrow> eventReducer n1 s (RegisterCall e1) = s)"
  by (cases "byId s" "event_id e1" rule: readMember_cases)
     (simp_all add: eventReducer_def)

text \<open>
  An instance on the empty store, and one on a store that already holds \<open>t1\<close>.
\<close>

theorem register_call_idempotent_witness:
  "event_id \<lparr>event_id = ''t1'', toolName = TN_bash, timestamp = 11,
        status = Running, durationMs = None, payload = Bash ''pwd'', result = None\<rparr> =
   event_id \<lparr>event_id = ''t1'', toolName = TN_bash, timestamp = 10,
        status = Running, durationMs = None, payload = Bash ''ls'', result = None\<rparr> \<and>
   eventReducer 11
     (eventReducer 10 initialEventState
        (RegisterCall \<lparr>event_id = ''t1'', toolName = TN_bash, timestamp = 10,
        status = Running, durationMs = None, payload = Bash ''ls'', result = None\<rparr>))
     (RegisterCall \<lparr>event_id = ''t1'', toolName = TN_bash, timestamp = 11,
        status = Running, durationMs = None, payload = Bash ''pwd'', result = None\<rparr>) =
   eventReducer 10 initialEventState
     (RegisterCall \<lparr>event_id = ''t1'', toolName = TN_bash, timestamp = 10,
        status = Running, durationMs = None, payload = Bash ''ls'', result = None\<rparr>) \<and>
   byId (eventReducer 5 initialEventState
      (RegisterResult ''t1'' Success (Finite 0) None)) ''t1'' \<noteq> None \<and>
   eventReducer 10
     (eventReducer 5 initialEventState (RegisterResult ''t1'' Success (Finite 0) None))
     (RegisterCall \<lparr>event_id = ''t1'', toolName = TN_bash, timestamp = 10,
        status = Running, durationMs = None, payload = Bash ''ls'', result = None\<rparr>) =
   eventReducer 5 initialEventState (RegisterResult ''t1'' Success (Finite 0) None)"
  using register_call_idempotent [of
      "\<lparr>event_id = ''t1'', toolName = TN_bash, timestamp = 11,
        status = Running, durationMs = None, payload = Bash ''pwd'', result = None\<rparr>"
      "\<lparr>event_id = ''t1'', toolName = TN_bash, timestamp = 10,
        status = Running, durationMs = None, payload = Bash ''ls'', result = None\<rparr>"
      11 10 initialEventState]
    register_call_idempotent [of
      "\<lparr>event_id = ''t1'', toolName = TN_bash, timestamp = 11,
        status = Running, durationMs = None, payload = Bash ''pwd'', result = None\<rparr>"
      "\<lparr>event_id = ''t1'', toolName = TN_bash, timestamp = 10,
        status = Running, durationMs = None, payload = Bash ''ls'', result = None\<rparr>"
      11 10
      "eventReducer 5 initialEventState (RegisterResult ''t1'' Success (Finite 0) None)"]
  by (simp add: eventReducer_def initialEventState_def readMember_def
      objectPrototypeMembers_def)

subsection \<open>Registering a result\<close>

text \<open>
  What register-result does for an id that is not the name of an inherited member:
  with no entry for the id it stores a synthesized event and appends the id; with an
  event for the id it updates status, duration and result in place.
\<close>

lemma register_result_fresh:
  "byId s i = None \<Longrightarrow> i \<notin> set objectPrototypeMembers \<Longrightarrow>
     eventReducer now s (RegisterResult i st d r) =
       \<lparr>byId = (byId s)(i \<mapsto> Event
           \<lparr>event_id = i, toolName = TN_unknown, timestamp = now, status = st,
            durationMs = Some d, payload = Unknown [], result = r\<rparr>),
        order = order s @ [i]\<rparr>"
  by (simp add: eventReducer_def)

lemma register_result_existing:
  "byId s i = Some (Event existing) \<Longrightarrow>
     eventReducer now s (RegisterResult i st d r) =
       s\<lparr>byId := (byId s)(i \<mapsto> Event
           (existing\<lparr>status := st, durationMs := Some d,
              result := (case r of Some x \<Rightarrow> Some x | None \<Rightarrow> result existing)\<rparr>))\<rparr>"
  by (simp add: eventReducer_def)

lemma register_result_status:
  "map_option storedStatus (byId (eventReducer now s (RegisterResult i st d r)) i) = Some st"
proof (cases "byId s" i rule: readMember_cases)
  case (own v)
  then show ?thesis by (cases v) (simp_all add: eventReducer_def)
qed (simp_all add: eventReducer_def)

lemma register_result_given:
  "map_option storedResult
     (byId (eventReducer now s (RegisterResult i st d (Some x))) i) = Some (Some x)"
proof (cases "byId s" i rule: readMember_cases)
  case (own v)
  then show ?thesis by (cases v) (simp_all add: eventReducer_def)
qed (simp_all add: eventReducer_def)

text \<open>
  Claim C5 says that a register-result for an id with no event in \<open>byId\<close> stores a
  synthesized event with the \<open>Unknown\<close> payload and appends the id to \<open>order\<close>.
  For the id \<open>toString\<close> on the empty store the reducer takes the update branch on
  the inherited member instead: \<open>order\<close> stays empty, and the entry stored under
  \<open>toString\<close> has a status, a duration and a result but no id, tool name, timestamp
  or payload.
\<close>

theorem register_result_inherited_id:
  "byId initialEventState ''toString'' = None \<and>
   order (eventReducer 12 initialEventState
     (RegisterResult ''toString'' Success (Finite 0) None)) = [] \<and>
   byId (eventReducer 12 initialEventState
     (RegisterResult ''toString'' Success (Finite 0) None)) ''toString'' =
     Some (Fragment Success (Finite 0) None)"
  by (simp add: eventReducer_def initialEventState_def readMember_def
      objectPrototypeMembers_def)

section \<open>Properties of the result classifier\<close>

lemma asRecord_JObj [simp]: "asRecord (JObj r) = Some r"
  by (simp add: asRecord_def)

lemma asRecord_Some_iff: "(asRecord v = Some r) = (v = JObj r)"
  by (cases v) (simp_all add: asRecord_def)

lemma asRecord_None_iff: "(asRecord v = None) = (\<forall>r. v \<noteq> JObj r)"
  by (cases v) (simp_all add: asRecord_def)

lemma parseToolResult_string:
  "parseToolResult s (JStr t) = Some (if t = s then AbortedResult t else TextResult t)"
  by (simp add: parseToolResult_def)

lemma parseToolResult_text_object:
  "getProp r ''type'' = JStr ''text'' \<Longrightarrow> getProp r ''text'' = JStr t \<Longrightarrow>
     parseToolResult s (JObj r) = Some (if t = s then AbortedResult t else TextResult t)"
  by (simp add: parseToolResult_def)

text \<open>
  Whatever the sentinel is, an object whose discriminant is neither \<open>text\<close> nor
  \<open>image\<close> is wrapped as \<open>UnknownResult\<close>, also when its \<open>text\<close> field is the
  sentinel.
\<close>

lemma parseToolResult_untyped_object:
  "getProp r ''type'' \<noteq> JStr ''text'' \<Longrightarrow> getProp r ''type'' \<noteq> JStr ''image'' \<Longrightarrow>
     parseToolResult s (JObj r) = Some (UnknownResult (JObj r))"
  by (simp add: parseToolResult_def split: option.splits bool.splits)

lemma parseToolResult_None_iff:
  "(parseToolResult s res = None) = (res = JUndefined \<or> res = JNull)"
  by (cases res)
     (auto simp: parseToolResult_def split: option.splits bool.splits prod.splits)

text \<open>
  Claim C2, as the classifier has it. A raw result that is the abort sentinel itself,
  or an object with discriminant \<open>text\<close> whose \<open>text\<close> field is the sentinel, is
  classified as \<open>AbortedResult\<close>, and its derived status is \<open>Aborted\<close>.
\<close>

theorem sentinel_text_is_aborted:
  "res = JStr s \<or> (\<exists>r. res = JObj r \<and> getProp r ''type'' = JStr ''text'' \<and>
        getProp r ''text'' = JStr s) \<Longrightarrow>
   parseToolResult s res = Some (AbortedResult s) \<and>
   deriveStatusFromResult (parseToolResult s res) = Aborted"
  by (auto simp: parseToolResult_string parseToolResult_text_object)

theorem sentinel_text_is_aborted_witness:
  "parseToolResult ''User aborted'' (JStr ''User aborted'') =
     Some (AbortedResult ''User aborted'') \<and>
   getProp [(''type'', JStr ''text''), (''text'', JStr ''User aborted'')] ''type'' =
     JStr ''text'' \<and>
   getProp [(''type'', JStr ''text''), (''text'', JStr ''User aborted'')] ''text'' =
     JStr ''User aborted'' \<and>
   deriveStatusFromResult (parseToolResult ''User aborted''
     (JObj [(''type'', JStr ''text''), (''text'', JStr ''User aborted'')])) = Aborted"
  using sentinel_text_is_aborted [of "JStr ''User aborted''" "''User aborted''"]
    sentinel_text_is_aborted [of
      "JObj [(''type'', JStr ''text''), (''text'', JStr ''User aborted'')]" "''User aborted''"]
  by (simp add: getProp_def)

text \<open>
  The discriminant is checked first. With the sentinel \<open>User aborted\<close>: an object
  that has the sentinel as its \<open>text\<close> field and no discriminant is classified as
  \<open>UnknownResult\<close>, with status \<open>Success\<close>; one with discriminant \<open>image\<close> and a
  string \<open>data\<close> field is classified as \<open>ImageResult\<close>.
\<close>

theorem sentinel_text_field_counterexample:
  "getProp [(''text'', JStr ''User aborted'')] ''text'' = JStr ''User aborted'' \<and>
   parseToolResult ''User aborted'' (JObj [(''text'', JStr ''User aborted'')]) =
     Some (UnknownResult (JObj [(''text'', JStr ''User aborted'')])) \<and>
   deriveStatusFromResult
     (parseToolResult ''User aborted'' (JObj [(''text'', JStr ''User aborted'')])) = Success \<and>
   parseToolResult ''User aborted''
     (JObj [(''type'', JStr ''image''), (''data'', JStr ''abc123''),
            (''text'', JStr ''User aborted'')]) = Some (ImageResult ''abc123'')"
  by (simp add: parseToolResult_def getProp_def asRecord_def)

text \<open>
  Claim C8. \<open>deriveStatusFromResult\<close> yields \<open>Aborted\<close> exactly on a present
  \<open>AbortedResult\<close>; on an absent result and on every text, image and unknown result
  it yields \<open>Success\<close>; it never yields \<open>Error\<close> or \<open>Running\<close>.
\<close>

theorem deriveStatusFromResult_cases:
  "(deriveStatusFromResult r = Aborted) = (\<exists>t. r = Some (AbortedResult t)) \<and>
   deriveStatusFromResult None = Success \<and>
   deriveStatusFromResult (Some (TextResult t)) = Success \<and>
   deriveStatusFromResult (Some (ImageResult d)) = Success \<and>
   deriveStatusFromResult (Some (UnknownResult v)) = Success \<and>
   deriveStatusFromResult r \<noteq> Error \<and>
   deriveStatusFromResult r \<noteq> Running"
  by (cases r rule: deriveStatusFromResult.cases) simp_all

theorem deriveStatusFromResult_cases_witness:
  "deriveStatusFromResult (Some (AbortedResult ''User aborted'')) = Aborted \<and>
   deriveStatusFromResult (Some (TextResult ''file1'')) = Success \<and>
   deriveStatusFromResult (Some (TextResult ''file1'')) \<noteq> Aborted"
  using deriveStatusFromResult_cases [of "Some (AbortedResult ''User aborted'')"]
    deriveStatusFromResult_cases [of "Some (TextResult ''file1'')"]
  by simp

text \<open>
  Claim C10. For a sentinel that is not the empty string, the empty string is
  classified as a present \<open>TextResult\<close> with empty text, of status \<open>Success\<close>; and
  whatever the sentinel, the classifier yields no result exactly on \<open>undefined\<close> and
  \<open>null\<close>.
\<close>

theorem empty_string_result:
  "s \<noteq> [] \<Longrightarrow>
     parseToolResult s (JStr []) = Some (TextResult []) \<and>
     deriveStatusFromResult (parseToolResult s (JStr [])) = Success \<and>
     (\<forall>res. (parseToolResult s res = None) = (res = JUndefined \<or> res = JNull))"
  by (auto simp: parseToolResult_string parseToolResult_None_iff)

theorem empty_string_result_witness:
  "''User aborted'' \<noteq> [] \<and>
   parseToolResult ''User aborted'' (JStr []) = Some (TextResult []) \<and>
   deriveStatusFromResult (parseToolResult ''User aborted'' (JStr [])) = Success \<and>
   (parseToolResult ''User aborted'' JNull = None) \<and>
   (parseToolResult ''User aborted'' (JNum (Finite 0)) \<noteq> None)"
  using empty_string_result [of "''User aborted''"]
  by simp

section \<open>Properties of the payload normalizer\<close>

text \<open>
  The action of a \<open>computer\<close> payload is the string the arguments carry, whatever it
  is, and \<open>unknown\<close> when they carry none.
\<close>

lemma computer_action_is_string_given:
  "getProp r ''action'' = JStr a \<Longrightarrow>
     \<exists>p. parseToolPayload ''computer'' (JObj r) = Computer p \<and> action p = a"
  by (simp add: parseToolPayload_def)

lemma computer_action_default:
  "asString (getProp (case asRecord v of Some r \<Rightarrow> r | None \<Rightarrow> []) ''action'') = None \<Longrightarrow>
     \<exists>p. parseToolPayload ''computer'' v = Computer p \<and> action p = ''unknown''"
  by (simp add: parseToolPayload_def Let_def)

text \<open>
  Claim C3 says that the action of a \<open>computer\<close> payload is always one of the ten
  values of \<open>ComputerAction\<close>, and \<open>unknown\<close> for any other string. The
  normalizer casts the string without checking it: for the arguments
  \<open>{action: "left_click_drag"}\<close> the payload's action is \<open>left_click_drag\<close>, which
  is none of the ten.
\<close>

theorem computer_action_unchecked:
  "parseToolPayload ''computer'' (JObj [(''action'', JStr ''left_click_drag'')]) =
     Computer \<lparr>action = ''left_click_drag'', coordinate = None, payload_text = None,
       duration = None, scroll_amount = None, scroll_direction = None\<rparr> \<and>
   ''left_click_drag'' \<notin> set ComputerAction"
  by (simp add: parseToolPayload_def getProp_def asRecord_def asCoordinate_def
      ComputerAction_def)

text \<open>
  Claim C4, as the normalizer has it. For a tool kind other than \<open>bash\<close> and
  \<open>computer\<close> the payload is \<open>Unknown\<close>; its \<open>raw\<close> field is the arguments
  themselves when they are a plain object, and the empty object for every other
  arguments value.
\<close>

theorem unknown_tool_payload:
  "tool \<noteq> ''bash'' \<Longrightarrow> tool \<noteq> ''computer'' \<Longrightarrow>
     (v = JObj r \<longrightarrow> parseToolPayload tool v = Unknown r) \<and>
     ((\<forall>r'. v \<noteq> JObj r') \<longrightarrow> parseToolPayload tool v = Unknown [])"
  by (auto simp: parseToolPayload_def asRecord_None_iff [symmetric])

theorem unknown_tool_payload_witness:
  "''search'' \<noteq> ''bash'' \<and> ''search'' \<noteq> ''computer'' \<and>
   parseToolPayload ''search'' (JObj [(''query'', JStr ''weather'')]) =
     Unknown [(''query'', JStr ''weather'')] \<and>
   (\<forall>r'. JStr ''weather'' \<noteq> JObj r') \<and>
   parseToolPayload ''search'' (JStr ''weather'') = Unknown []"
  using unknown_tool_payload [of "''search''" "JObj [(''query'', JStr ''weather'')]"
      "[(''query'', JStr ''weather'')]"]
    unknown_tool_payload [of "''search''" "JStr ''weather''" "[]"]
  by simp

text \<open>
  Arguments that are a string or an array are not kept: \<open>raw\<close> is the empty object.
\<close>

theorem unknown_tool_raw_counterexample:
  "parseToolPayload ''search'' (JStr ''weather'') = Unknown [] \<and>
   JObj (raw (parseToolPayload ''search'' (JStr ''weather''))) \<noteq> JStr ''weather'' \<and>
   parseToolPayload ''search'' (JArr [JStr ''weather'']) = Unknown [] \<and>
   JObj (raw (parseToolPayload ''search'' (JArr [JStr ''weather'']))) \<noteq>
     JArr [JStr ''weather'']"
  by (simp add: parseToolPayload_def asRecord_def)

section \<open>Properties of the ingestion scanner and the stop handler\<close>

subsection \<open>Rescanning\<close>

lemma scanMessage_parts:
  "scanMessage A c st m = foldl (handlePart A c) st (partsOf m)"
  by (simp add: scanMessage_def partsOf_def split: option.splits)

lemma foldl_scanMessage:
  "foldl (scanMessage A c) st ms = foldl (handlePart A c) st (allParts ms)"
  by (induction ms arbitrary: st) (simp_all add: allParts_def scanMessage_parts)

lemma scanMessages_parts:
  "scanMessages A c True st ms = foldl (handlePart A c) st (allParts ms)"
  by (simp add: scanMessages_def foldl_scanMessage)

lemma handlePart_alreadySeen:
  "alreadySeen st p \<Longrightarrow> handlePart A c st p = st"
  by (cases p)
     (auto simp: alreadySeen_def handlePart_def Let_def
        split: if_splits InvocationState.splits)

lemma seenCalls_dispatchEvent: "seenCalls (dispatchEvent c st a) = seenCalls st"
  by (simp add: dispatchEvent_def)

lemma seenResults_dispatchEvent: "seenResults (dispatchEvent c st a) = seenResults st"
  by (simp add: dispatchEvent_def)

lemma seenCalls_onCall: "seenCalls (onCall c st ti) = insert (toolCallId ti) (seenCalls st)"
  by (simp add: onCall_def Let_def seenCalls_dispatchEvent)

lemma seenResults_onCall: "seenResults (onCall c st ti) = seenResults st"
  by (simp add: onCall_def Let_def seenResults_dispatchEvent)

lemma seenCalls_onResult: "seenCalls (onResult A c st ti) = seenCalls st"
  by (simp add: onResult_def Let_def seenCalls_dispatchEvent split: member.splits)

lemma seenResults_onResult:
  "seenResults (onResult A c st ti) = insert (toolCallId ti) (seenResults st)"
  by (simp add: onResult_def Let_def seenResults_dispatchEvent split: member.splits)

lemmas seen_sets =
  seenCalls_onCall seenResults_onCall seenCalls_onResult seenResults_onResult

lemma handlePart_makes_seen: "alreadySeen (handlePart A c st p) p"
  by (cases p)
     (auto simp: alreadySeen_def handlePart_def Let_def seen_sets
        split: InvocationState.splits)

lemma handlePart_seenCalls_mono: "seenCalls st \<subseteq> seenCalls (handlePart A c st p)"
  by (cases p) (auto simp: handlePart_def Let_def seen_sets)

lemma handlePart_seenResults_mono: "seenResults st \<subseteq> seenResults (handlePart A c st p)"
  by (cases p) (auto simp: handlePart_def Let_def seen_sets)

lemma alreadySeen_mono:
  "seenCalls st \<subseteq> seenCalls st' \<Longrightarrow> seenResults st \<subseteq> seenResults st' \<Longrightarrow>
     alreadySeen st q \<Longrightarrow> alreadySeen st' q"
  by (cases q) (auto simp: alreadySeen_def split: if_splits InvocationState.splits)

lemma handlePart_keeps_seen: "alreadySeen st q \<Longrightarrow> alreadySeen (handlePart A c st p) q"
  by (rule alreadySeen_mono [OF handlePart_seenCalls_mono handlePart_seenResults_mono])

lemma foldl_keeps_seen:
  "alreadySeen st q \<Longrightarrow> alreadySeen (foldl (handlePart A c) st ps) q"
  by (induction ps arbitrary: st) (simp_all add: handlePart_keeps_seen)

lemma foldl_makes_seen:
  "q \<in> set ps \<Longrightarrow> alreadySeen (foldl (handlePart A c) st ps) q"
proof (induction ps arbitrary: st)
  case Nil
  then show ?case by simp
next
  case (Cons p ps)
  show ?case
  proof (cases "q = p")
    case True
    then show ?thesis
      by (simp add: foldl_keeps_seen handlePart_makes_seen)
  next
    case False
    with Cons show ?thesis by simp
  qed
qed

lemma foldl_all_seen:
  "(\<And>q. q \<in> set ps \<Longrightarrow> alreadySeen st q) \<Longrightarrow> foldl (handlePart A c) st ps = st"
  by (induction ps) (simp_all add: handlePart_alreadySeen)

text \<open>Rescanning an unchanged history changes nothing.\<close>

lemma rescan_unchanged:
  "scanMessages A c True (scanMessages A c True st ms) ms = scanMessages A c True st ms"
  unfolding scanMessages_parts
  by (rule foldl_all_seen) (rule foldl_makes_seen)

subsection \<open>Stopping a pending call\<close>

lemma stop_last_invocation:
  assumes "msgs \<noteq> []" and "role (last msgs) = ''assistant''"
    and "parts (last msgs) = Some ps" and "ps \<noteq> []"
    and "last ps = ToolInvocationPart ti"
  shows "stop A msgs =
     Inr (butlast msgs @
       [(last msgs)\<lparr>parts := Some (butlast ps @
          [ToolInvocationPart (ti\<lparr>inv_state := Result, inv_result := JStr A\<rparr>)])\<rparr>])"
  using assms by (simp add: stop_def Let_def)

lemma allParts_append: "allParts (xs @ ys) = allParts xs @ allParts ys"
  by (simp add: allParts_def)

lemma allParts_split_last:
  assumes "msgs \<noteq> []" and "parts (last msgs) = Some ps" and "ps \<noteq> []"
  shows "allParts msgs = (allParts (butlast msgs) @ butlast ps) @ [last ps]"
proof -
  have "allParts msgs = allParts (butlast msgs @ [last msgs])"
    using assms(1) by simp
  also have "\<dots> = allParts (butlast msgs) @ ps"
    using assms(2) by (simp add: allParts_append) (simp add: allParts_def partsOf_def)
  also have "ps = butlast ps @ [last ps]"
    using assms(3) by simp
  finally show ?thesis by simp
qed

lemma allParts_replaced_last:
  "allParts (butlast msgs @ [m\<lparr>parts := Some (qs @ [p])\<rparr>]) =
     (allParts (butlast msgs) @ qs) @ [p]"
  by (simp add: allParts_append) (simp add: allParts_def partsOf_def)

lemma handlePart_new_result:
  assumes "toolCallId ti \<noteq> []" and "inv_state ti = Result"
    and "toolCallId ti \<notin> seenResults st"
  shows "handlePart A c st (ToolInvocationPart ti) = onResult A c st ti"
  using assms by (simp add: handlePart_def)

text \<open>
  A result part that carries the sentinel is dispatched as a register-result with
  status \<open>Aborted\<close> and an \<open>AbortedResult\<close>, whatever the clock readings are.
\<close>

lemma onResult_sentinel:
  "\<exists>now d. eventState (onResult A c st (ti\<lparr>inv_state := Result, inv_result := JStr A\<rparr>)) =
     eventReducer now (eventState st)
       (RegisterResult (toolCallId ti) Aborted d (Some (AbortedResult A)))"
  by (simp add: onResult_def dispatchEvent_def Let_def parseToolResult_def
        split: member.splits)
     blast

lemma rescan_after_stop:
  assumes st: "st = scanMessages A c True st0 msgs"
    and ne: "msgs \<noteq> []" and ps: "parts (last msgs) = Some ps" "ps \<noteq> []"
    and ti: "last ps = ToolInvocationPart ti"
    and tid: "toolCallId ti \<noteq> []" "toolCallId ti \<notin> seenResults st"
  shows "scanMessages A c True st
           (butlast msgs @
             [(last msgs)\<lparr>parts := Some (butlast ps @
                [ToolInvocationPart (ti\<lparr>inv_state := Result, inv_result := JStr A\<rparr>)])\<rparr>]) =
         onResult A c st (ti\<lparr>inv_state := Result, inv_result := JStr A\<rparr>)"
proof -
  let ?pre = "allParts (butlast msgs) @ butlast ps"
  let ?new = "ti\<lparr>inv_state := Result, inv_result := JStr A\<rparr>"
  have all: "allParts msgs = ?pre @ [last ps]"
    by (rule allParts_split_last [OF ne ps])
  have seen: "alreadySeen st q" if "q \<in> set ?pre" for q
  proof -
    from that all have "q \<in> set (allParts msgs)" by simp
    then show ?thesis unfolding st scanMessages_parts by (rule foldl_makes_seen)
  qed
  have pre: "foldl (handlePart A c) st ?pre = st"
    by (rule foldl_all_seen) (rule seen)
  have "handlePart A c st (ToolInvocationPart ?new) = onResult A c st ?new"
    by (rule handlePart_new_result) (simp_all add: tid)
  with pre show ?thesis
    unfolding scanMessages_parts allParts_replaced_last by simp
qed

text \<open>
  Claim C9, as the stop handler has it. Let the scanner's memory be the one left by
  scanning the current history, and let the last part of the last message, an
  assistant message, be a tool invocation with a non-empty id whose result has not
  been seen. Then \<open>stop\<close> replaces that part by the same invocation in state
  \<open>Result\<close> with the abort sentinel as its result and leaves the rest of the history
  as it is, and after the next scan the event of that id has status \<open>Aborted\<close> and
  an \<open>AbortedResult\<close>.
\<close>

theorem stop_aborts_last_invocation:
  assumes "st = scanMessages A c True st0 msgs"
    and "msgs \<noteq> []" and "role (last msgs) = ''assistant''"
    and "parts (last msgs) = Some ps" and "ps \<noteq> []"
    and "last ps = ToolInvocationPart ti"
    and "toolCallId ti \<noteq> []" and "toolCallId ti \<notin> seenResults st"
  shows "stop A msgs =
       Inr (butlast msgs @
         [(last msgs)\<lparr>parts := Some (butlast ps @
            [ToolInvocationPart (ti\<lparr>inv_state := Result, inv_result := JStr A\<rparr>)])\<rparr>]) \<and>
     map_option storedStatus
       (byId (eventState (scanMessages A c True st
          (butlast msgs @
            [(last msgs)\<lparr>parts := Some (butlast ps @
               [ToolInvocationPart (ti\<lparr>inv_state := Result, inv_result := JStr A\<rparr>)])\<rparr>])))
        (toolCallId ti)) = Some Aborted \<and>
     map_option storedResult
       (byId (eventState (scanMessages A c True st
          (butlast msgs @
            [(last msgs)\<lparr>parts := Some (butlast ps @
               [ToolInvocationPart (ti\<lparr>inv_state := Result, inv_result := JStr A\<rparr>)])\<rparr>])))
        (toolCallId ti)) = Some (Some (AbortedResult A))"
proof -
  let ?new = "ti\<lparr>inv_state := Result, inv_result := JStr A\<rparr>"
  let ?msgs' = "butlast msgs @
     [(last msgs)\<lparr>parts := Some (butlast ps @ [ToolInvocationPart ?new])\<rparr>]"
  let ?s' = "eventState (scanMessages A c True st ?msgs')"
  have stopped: "stop A msgs = Inr ?msgs'"
    by (rule stop_last_invocation [OF assms(2) assms(3) assms(4) assms(5) assms(6)])
  have "scanMessages A c True st ?msgs' = onResult A c st ?new"
    by (rule rescan_after_stop
          [OF assms(1) assms(2) assms(4) assms(5) assms(6) assms(7) assms(8)])
  with onResult_sentinel [of A c st ti]
  obtain now d where store: "?s' =
      eventReducer now (eventState st)
        (RegisterResult (toolCallId ti) Aborted d (Some (AbortedResult A)))"
    by auto
  have aborted: "map_option storedStatus (byId ?s' (toolCallId ti)) = Some Aborted"
    unfolding store by (rule register_result_status)
  have res: "map_option storedResult (byId ?s' (toolCallId ti)) =
      Some (Some (AbortedResult A))"
    unfolding store by (rule register_result_given)
  from stopped aborted res show ?thesis by (intro conjI)
qed

text \<open>An instance: one pending \<open>bash\<close> call \<open>t1\<close>, stopped.\<close>

lemmas scan_eval =
  scanMessages_def scanMessage_def handlePart_def onCall_def onResult_def
  dispatchEvent_def readsClock_def readMember_def assignNumber_def
  objectPrototypeMembers_def
  initialScannerState_def initialEventState_def eventReducer_def stop_def
  parseToolResult_def parseToolPayload_def normalizeToolName_def asRecord_def
  getProp_def Let_def

theorem stop_aborts_last_invocation_witness:
  "''t1'' \<notin> seenResults (scanMessages ''User aborted'' int True initialScannerState
      [\<lparr>role = ''assistant'', content = [], parts = Some
         [ToolInvocationPart \<lparr>toolCallId = ''t1'', inv_toolName = ''bash'',
            inv_state = Call, args = JObj [(''command'', JStr ''ls'')],
            inv_result = JUndefined\<rparr>]\<rparr>]) \<and>
   map_option storedStatus (byId (eventState
     (scanMessages ''User aborted'' int True initialScannerState
      [\<lparr>role = ''assistant'', content = [], parts = Some
         [ToolInvocationPart \<lparr>toolCallId = ''t1'', inv_toolName = ''bash'',
            inv_state = Call, args = JObj [(''command'', JStr ''ls'')],
            inv_result = JUndefined\<rparr>]\<rparr>])) ''t1'') = Some Running \<and>
   stop ''User aborted''
      [\<lparr>role = ''assistant'', content = [], parts = Some
         [ToolInvocationPart \<lparr>toolCallId = ''t1'', inv_toolName = ''bash'',
            inv_state = Call, args = JObj [(''command'', JStr ''ls'')],
            inv_result = JUndefined\<rparr>]\<rparr>] =
     Inr [\<lparr>role = ''assistant'', content = [], parts = Some
         [ToolInvocationPart \<lparr>toolCallId = ''t1'', inv_toolName = ''bash'',
            inv_state = Result, args = JObj [(''command'', JStr ''ls'')],
            inv_result = JStr ''User aborted''\<rparr>]\<rparr>] \<and>
   map_option storedStatus (byId (eventState
     (scanMessages ''User aborted'' int True (scanMessages ''User aborted'' int True initialScannerState
      [\<lparr>role = ''assistant'', content = [], parts = Some
         [ToolInvocationPart \<lparr>toolCallId = ''t1'', inv_toolName = ''bash'',
            inv_state = Call, args = JObj [(''command'', JStr ''ls'')],
            inv_result = JUndefined\<rparr>]\<rparr>])
      [\<lparr>role = ''assistant'', content = [], parts = Some
         [ToolInvocationPart \<lparr>toolCallId = ''t1'', inv_toolName = ''bash'',
            inv_state = Result, args = JObj [(''command'', JStr ''ls'')],
            inv_result = JStr ''User aborted''\<rparr>]\<rparr>])) ''t1'') = Some Aborted \<and>
   map_option storedResult (byId (eventState
     (scanMessages ''User aborted'' int True (scanMessages ''User aborted'' int True initialScannerState
      [\<lparr>role = ''assistant'', content = [], parts = Some
         [ToolInvocationPart \<lparr>toolCallId = ''t1'', inv_toolName = ''bash'',
            inv_state = Call, args = JObj [(''command'', JStr ''ls'')],
            inv_result = JUndefined\<rparr>]\<rparr>])
      [\<lparr>role = ''assistant'', content = [], parts = Some
         [ToolInvocationPart \<lparr>toolCallId = ''t1'', inv_toolName = ''bash'',
            inv_state = Result, args = JObj [(''command'', JStr ''ls'')],
            inv_result = JStr ''User aborted''\<rparr>]\<rparr>])) ''t1'') = Some (Some (AbortedResult ''User aborted''))"
  using stop_aborts_last_invocation [OF refl, where A = "''User aborted''" and c = int
      and ?st0.0 = initialScannerState
      and msgs = "[\<lparr>role = ''assistant'', content = [], parts = Some
         [ToolInvocationPart \<lparr>toolCallId = ''t1'', inv_toolName = ''bash'',
            inv_state = Call, args = JObj [(''command'', JStr ''ls'')],
            inv_result = JUndefined\<rparr>]\<rparr>]"
      and ps = "[ToolInvocationPart \<lparr>toolCallId = ''t1'', inv_toolName = ''bash'',
            inv_state = Call, args = JObj [(''command'', JStr ''ls'')],
            inv_result = JUndefined\<rparr>]"
      and ti = "\<lparr>toolCallId = ''t1'', inv_toolName = ''bash'',
            inv_state = Call, args = JObj [(''command'', JStr ''ls'')],
            inv_result = JUndefined\<rparr>"]
  by (simp add: scan_eval)

text \<open>
  The stop handler looks at the last part of the last message only, and only at an
  assistant message. When the pending call \<open>t1\<close> is followed by a text part, or by
  a message of the user, \<open>stop\<close> returns the history as it is, and after the next
  scan \<open>t1\<close> is still \<open>Running\<close>.
\<close>

theorem stop_skips_pending_call_counterexample:
  "stop ''User aborted''
      [\<lparr>role = ''assistant'', content = [], parts = Some
         [ToolInvocationPart \<lparr>toolCallId = ''t1'', inv_toolName = ''bash'',
            inv_state = Call, args = JObj [(''command'', JStr ''ls'')],
            inv_result = JUndefined\<rparr>,
          OtherPart ''text'']\<rparr>] =
     Inr [\<lparr>role = ''assistant'', content = [], parts = Some
         [ToolInvocationPart \<lparr>toolCallId = ''t1'', inv_toolName = ''bash'',
            inv_state = Call, args = JObj [(''command'', JStr ''ls'')],
            inv_result = JUndefined\<rparr>,
          OtherPart ''text'']\<rparr>] \<and>
   map_option storedStatus (byId (eventState
     (scanMessages ''User aborted'' int True (scanMessages ''User aborted'' int True initialScannerState
      [\<lparr>role = ''assistant'', content = [], parts = Some
         [ToolInvocationPart \<lparr>toolCallId = ''t1'', inv_toolName = ''bash'',
            inv_state = Call, args = JObj [(''command'', JStr ''ls'')],
            inv_result = JUndefined\<rparr>,
          OtherPart ''text'']\<rparr>])
      [\<lparr>role = ''assistant'', content = [], parts = Some
         [ToolInvocationPart \<lparr>toolCallId = ''t1'', inv_toolName = ''bash'',
            inv_state = Call, args = JObj [(''command'', JStr ''ls'')],
            inv_result = JUndefined\<rparr>,
          OtherPart ''text'']\<rparr>])) ''t1'') = Some Running \<and>
   stop ''User aborted''
      [\<lparr>role = ''assistant'', content = [], parts = Some
         [ToolInvocationPart \<lparr>toolCallId = ''t1'', inv_toolName = ''bash'',
            inv_state = Call, args = JObj [(''command'', JStr ''ls'')],
            inv_result = JUndefined\<rparr>]\<rparr>,
       \<lparr>role = ''user'', content = [], parts = Some
         [OtherPart ''text'']\<rparr>] =
     Inr [\<lparr>role = ''assistant'', content = [], parts = Some
         [ToolInvocationPart \<lparr>toolCallId = ''t1'', inv_toolName = ''bash'',
            inv_state = Call, args = JObj [(''command'', JStr ''ls'')],
            inv_result = JUndefined\<rparr>]\<rparr>,
       \<lparr>role = ''user'', content = [], parts = Some
         [OtherPart ''text'']\<rparr>] \<and>
   map_option storedStatus (byId (eventState
     (scanMessages ''User aborted'' int True (scanMessages ''User aborted'' int True initialScannerState
      [\<lparr>role = ''assistant'', content = [], parts = Some
         [ToolInvocationPart \<lparr>toolCallId = ''t1'', inv_toolName = ''bash'',
            inv_state = Call, args = JObj [(''command'', JStr ''ls'')],
            inv_result = JUndefined\<rparr>]\<rparr>,
       \<lparr>role = ''user'', content = [], parts = Some
         [OtherPart ''text'']\<rparr>])
      [\<lparr>role = ''assistant'', content = [], parts = Some
         [ToolInvocationPart \<lparr>toolCallId = ''t1'', inv_toolName = ''bash'',
            inv_state = Call, args = JObj [(''command'', JStr ''ls'')],
            inv_result = JUndefined\<rparr>]\<rparr>,
       \<lparr>role = ''user'', content = [], parts = Some
         [OtherPart ''text'']\<rparr>])) ''t1'') = Some Running"
  by (simp add: scan_eval)

text \<open>
  Only the last part is rewritten: with two calls \<open>t1\<close> and \<open>t2\<close> pending in the
  last message, \<open>stop\<close> and the next scan abort \<open>t2\<close>, and \<open>t1\<close> is still
  \<open>Running\<close>.
\<close>

lemma stop_with_two_pending_calls:
  "stop ''User aborted''
      [\<lparr>role = ''assistant'', content = [], parts = Some
         [ToolInvocationPart \<lparr>toolCallId = ''t1'', inv_toolName = ''bash'',
            inv_state = Call, args = JObj [(''command'', JStr ''ls'')],
            inv_result = JUndefined\<rparr>,
          ToolInvocationPart \<lparr>toolCallId = ''t2'', inv_toolName = ''bash'',
            inv_state = Call, args = JObj [(''command'', JStr ''pwd'')],
            inv_result = JUndefined\<rparr>]\<rparr>] =
     Inr [\<lparr>role = ''assistant'', content = [], parts = Some
         [ToolInvocationPart \<lparr>toolCallId = ''t1'', inv_toolName = ''bash'',
            inv_state = Call, args = JObj [(''command'', JStr ''ls'')],
            inv_result = JUndefined\<rparr>,
          ToolInvocationPart \<lparr>toolCallId = ''t2'', inv_toolName = ''bash'',
            inv_state = Result, args = JObj [(''command'', JStr ''pwd'')],
            inv_result = JStr ''User aborted''\<rparr>]\<rparr>] \<and>
   map_option storedStatus (byId (eventState
     (scanMessages ''User aborted'' int True (scanMessages ''User aborted'' int True initialScannerState
      [\<lparr>role = ''assistant'', content = [], parts = Some
         [ToolInvocationPart \<lparr>toolCallId = ''t1'', inv_toolName = ''bash'',
            inv_state = Call, args = JObj [(''command'', JStr ''ls'')],
            inv_result = JUndefined\<rparr>,
          ToolInvocationPart \<lparr>toolCallId = ''t2'', inv_toolName = ''bash'',
            inv_state = Call, args = JObj [(''command'', JStr ''pwd'')],
            inv_result = JUndefined\<rparr>]\<rparr>])
      [\<lparr>role = ''assistant'', content = [], parts = Some
         [ToolInvocationPart \<lparr>toolCallId = ''t1'', inv_toolName = ''bash'',
            inv_state = Call, args = JObj [(''command'', JStr ''ls'')],
            inv_result = JUndefined\<rparr>,
          ToolInvocationPart \<lparr>toolCallId = ''t2'', inv_toolName = ''bash'',
            inv_state = Result, args = JObj [(''command'', JStr ''pwd'')],
            inv_result = JStr ''User aborted''\<rparr>]\<rparr>])) ''t2'') = Some Aborted \<and>
   map_option storedStatus (byId (eventState
     (scanMessages ''User aborted'' int True (scanMessages ''User aborted'' int True initialScannerState
      [\<lparr>role = ''assistant'', content = [], parts = Some
         [ToolInvocationPart \<lparr>toolCallId = ''t1'', inv_toolName = ''bash'',
            inv_state = Call, args = JObj [(''command'', JStr ''ls'')],
            inv_result = JUndefined\<rparr>,
          ToolInvocationPart \<lparr>toolCallId = ''t2'', inv_toolName = ''bash'',
            inv_state = Call, args = JObj [(''command'', JStr ''pwd'')],
            inv_result = JUndefined\<rparr>]\<rparr>])
      [\<lparr>role = ''assistant'', content = [], parts = Some
         [ToolInvocationPart \<lparr>toolCallId = ''t1'', inv_toolName = ''bash'',
            inv_state = Call, args = JObj [(''command'', JStr ''ls'')],
            inv_result = JUndefined\<rparr>,
          ToolInvocationPart \<lparr>toolCallId = ''t2'', inv_toolName = ''bash'',
            inv_state = Result, args = JObj [(''command'', JStr ''pwd'')],
            inv_result = JStr ''User aborted''\<rparr>]\<rparr>])) ''t1'') = Some Running"
  by (simp add: scan_eval)

text \<open>
  The duration of a tracked call is the reading taken at the result minus the reading
  taken at the call: with the clock \<open>0, 1, 2, \<dots>\<close>, a call and its result give
  duration \<open>1\<close>.
\<close>

lemma tracked_call_duration:
  "byId (eventState
     (scanMessages ''User aborted'' int True (scanMessages ''User aborted'' int True initialScannerState
      [\<lparr>role = ''assistant'', content = [], parts = Some
         [ToolInvocationPart \<lparr>toolCallId = ''t1'', inv_toolName = ''bash'',
            inv_state = Call, args = JObj [(''command'', JStr ''ls'')],
            inv_result = JUndefined\<rparr>]\<rparr>])
      [\<lparr>role = ''assistant'', content = [], parts = Some
         [ToolInvocationPart \<lparr>toolCallId = ''t1'', inv_toolName = ''bash'',
            inv_state = Result, args = JObj [(''command'', JStr ''ls'')],
            inv_result = JStr ''User aborted''\<rparr>]\<rparr>])) ''t1'' =
     Some (Event \<lparr>event_id = ''t1'', toolName = TN_bash, timestamp = 0,
       status = Aborted, durationMs = Some (Finite 1), payload = Bash ''ls'',
       result = Some (AbortedResult ''User aborted'')\<rparr>)"
  by (simp add: scan_eval)

end
